theory Spec2Isabelle
  imports Main "HOL-Library.Word"
begin

unbundle bit_operations_syntax

section \<open>The iOS ELF compatibility header (Scripts/ios-elf.h)\<close>

type_synonym u8 = "8 word"
type_synonym u32 = "32 word"
type_synonym u64 = "64 word"

subsection \<open>Named constants\<close>

text \<open>
  The header defines its constants as preprocessor macros that expand to integer
  literals. Each one is embedded as an \<open>int\<close> carrying the literal of its
  \<open>#define\<close> line. (\<open>0xf0000000\<close> does not fit a C \<open>int\<close> and is an
  \<open>unsigned int\<close> literal; its value is the same non-negative number.)
\<close>

text \<open>ELF file types.\<close>

definition ET_NONE :: int where "ET_NONE = 0"
definition ET_REL :: int where "ET_REL = 1"
definition ET_EXEC :: int where "ET_EXEC = 2"
definition ET_DYN :: int where "ET_DYN = 3"
definition ET_CORE :: int where "ET_CORE = 4"

text \<open>ELF machine types.\<close>

definition EM_NONE :: int where "EM_NONE = 0"
definition EM_386 :: int where "EM_386 = 3"
definition EM_X86_64 :: int where "EM_X86_64 = 62"
definition EM_AARCH64 :: int where "EM_AARCH64 = 183"

text \<open>ELF class and data.\<close>

definition ELFCLASS32 :: int where "ELFCLASS32 = 1"
definition ELFCLASS64 :: int where "ELFCLASS64 = 2"
definition ELFDATA2LSB :: int where "ELFDATA2LSB = 1"
definition ELFDATA2MSB :: int where "ELFDATA2MSB = 2"

text \<open>ELF version.\<close>

definition EV_NONE :: int where "EV_NONE = 0"
definition EV_CURRENT :: int where "EV_CURRENT = 1"

text \<open>Section header types.\<close>

definition SHT_NULL :: int where "SHT_NULL = 0"
definition SHT_PROGBITS :: int where "SHT_PROGBITS = 1"
definition SHT_SYMTAB :: int where "SHT_SYMTAB = 2"
definition SHT_STRTAB :: int where "SHT_STRTAB = 3"
definition SHT_RELA :: int where "SHT_RELA = 4"
definition SHT_HASH :: int where "SHT_HASH = 5"
definition SHT_DYNAMIC :: int where "SHT_DYNAMIC = 6"
definition SHT_NOTE :: int where "SHT_NOTE = 7"
definition SHT_NOBITS :: int where "SHT_NOBITS = 8"
definition SHT_REL :: int where "SHT_REL = 9"
definition SHT_SHLIB :: int where "SHT_SHLIB = 10"
definition SHT_DYNSYM :: int where "SHT_DYNSYM = 11"

text \<open>Section header flags.\<close>

definition SHF_WRITE :: int where "SHF_WRITE = 0x1"
definition SHF_ALLOC :: int where "SHF_ALLOC = 0x2"
definition SHF_EXECINSTR :: int where "SHF_EXECINSTR = 0x4"
definition SHF_MASKPROC :: int where "SHF_MASKPROC = 0xf0000000"

text \<open>Symbol binding.\<close>

definition STB_LOCAL :: int where "STB_LOCAL = 0"
definition STB_GLOBAL :: int where "STB_GLOBAL = 1"
definition STB_WEAK :: int where "STB_WEAK = 2"
definition STB_NUM :: int where "STB_NUM = 3"

text \<open>Symbol type.\<close>

definition STT_NOTYPE :: int where "STT_NOTYPE = 0"
definition STT_OBJECT :: int where "STT_OBJECT = 1"
definition STT_FUNC :: int where "STT_FUNC = 2"
definition STT_SECTION :: int where "STT_SECTION = 3"
definition STT_FILE :: int where "STT_FILE = 4"
definition STT_COMMON :: int where "STT_COMMON = 5"
definition STT_TLS :: int where "STT_TLS = 6"
definition STT_NUM :: int where "STT_NUM = 7"

text \<open>Relocation types.\<close>

definition R_X86_64_NONE :: int where "R_X86_64_NONE = 0"
definition R_X86_64_64 :: int where "R_X86_64_64 = 1"
definition R_X86_64_PC32 :: int where "R_X86_64_PC32 = 2"
definition R_X86_64_GOT32 :: int where "R_X86_64_GOT32 = 3"
definition R_X86_64_PLT32 :: int where "R_X86_64_PLT32 = 4"
definition R_X86_64_COPY :: int where "R_X86_64_COPY = 5"
definition R_X86_64_GLOB_DAT :: int where "R_X86_64_GLOB_DAT = 6"
definition R_X86_64_JUMP_SLOT :: int where "R_X86_64_JUMP_SLOT = 7"
definition R_X86_64_RELATIVE :: int where "R_X86_64_RELATIVE = 8"
definition R_X86_64_32 :: int where "R_X86_64_32 = 9"
definition R_X86_64_32S :: int where "R_X86_64_32S = 10"
definition R_X86_64_16 :: int where "R_X86_64_16 = 11"
definition R_X86_64_PC16 :: int where "R_X86_64_PC16 = 12"
definition R_X86_64_8 :: int where "R_X86_64_8 = 13"
definition R_X86_64_PC8 :: int where "R_X86_64_PC8 = 14"

text \<open>
  ELF magic number. A C character constant such as \<open>'E'\<close> has type \<open>int\<close> and
  the value of the character's code.
\<close>

definition EI_NIDENT :: int where "EI_NIDENT = 16"
definition ELFMAG0 :: int where "ELFMAG0 = 0x7f"
definition ELFMAG1 :: int where "ELFMAG1 = of_char CHR ''E''"
definition ELFMAG2 :: int where "ELFMAG2 = of_char CHR ''L''"
definition ELFMAG3 :: int where "ELFMAG3 = of_char CHR ''F''"

subsection \<open>Helper macros on the relocation info field\<close>

text \<open>
  The three macros are applied to the \<open>uint64_t\<close> field \<open>r_info\<close> of
  \<open>Elf64_Rela\<close>, so their arguments are 64-bit words: \<open>>>\<close> is a logical
  shift, \<open><<\<close> drops the bits shifted out, and \<open>+\<close> wraps modulo \<open>2 ^ 64\<close>.
\<close>

definition ELF64_R_SYM :: "u64 \<Rightarrow> u64" where
  "ELF64_R_SYM i = drop_bit 32 i"

definition ELF64_R_TYPE :: "u64 \<Rightarrow> u64" where
  "ELF64_R_TYPE i = i AND 0xffffffff"

definition ELF64_R_INFO :: "u64 \<Rightarrow> u64 \<Rightarrow> u64" where
  "ELF64_R_INFO s t = push_bit 32 s + (t AND 0xffffffff)"

subsection \<open>ELF header structures\<close>

text \<open>
  A structure declaration is embedded as the list of its members in declaration
  order; each member carries its name, its element type and its element count
  (16 for the array \<open>e_ident[16]\<close>, 1 for a scalar member).
\<close>

datatype ctype = UChar | UInt16 | UInt32 | UInt64 | Int64

fun sizeof_ctype :: "ctype \<Rightarrow> nat" where
  "sizeof_ctype UChar = 1"
| "sizeof_ctype UInt16 = 2"
| "sizeof_ctype UInt32 = 4"
| "sizeof_ctype UInt64 = 8"
| "sizeof_ctype Int64 = 8"

datatype member = Member (m_name: string) (m_type: ctype) (m_count: nat)

definition Elf64_Ehdr :: "member list" where
  "Elf64_Ehdr =
    [Member ''e_ident'' UChar 16,
     Member ''e_type'' UInt16 1,
     Member ''e_machine'' UInt16 1,
     Member ''e_version'' UInt32 1,
     Member ''e_entry'' UInt64 1,
     Member ''e_phoff'' UInt64 1,
     Member ''e_shoff'' UInt64 1,
     Member ''e_flags'' UInt32 1,
     Member ''e_ehsize'' UInt16 1,
     Member ''e_phentsize'' UInt16 1,
     Member ''e_phnum'' UInt16 1,
     Member ''e_shentsize'' UInt16 1,
     Member ''e_shnum'' UInt16 1,
     Member ''e_shstrndx'' UInt16 1]"

definition Elf64_Shdr :: "member list" where
  "Elf64_Shdr =
    [Member ''sh_name'' UInt32 1,
     Member ''sh_type'' UInt32 1,
     Member ''sh_flags'' UInt64 1,
     Member ''sh_addr'' UInt64 1,
     Member ''sh_offset'' UInt64 1,
     Member ''sh_size'' UInt64 1,
     Member ''sh_link'' UInt32 1,
     Member ''sh_info'' UInt32 1,
     Member ''sh_addralign'' UInt64 1,
     Member ''sh_entsize'' UInt64 1]"

definition Elf64_Sym :: "member list" where
  "Elf64_Sym =
    [Member ''st_name'' UInt32 1,
     Member ''st_info'' UChar 1,
     Member ''st_other'' UChar 1,
     Member ''st_shndx'' UInt16 1,
     Member ''st_value'' UInt64 1,
     Member ''st_size'' UInt64 1]"

definition Elf64_Rela :: "member list" where
  "Elf64_Rela =
    [Member ''r_offset'' UInt64 1,
     Member ''r_info'' UInt64 1,
     Member ''r_addend'' Int64 1]"

definition member_size :: "member \<Rightarrow> nat" where
  "member_size m = sizeof_ctype (m_type m) * m_count m"

text \<open>
  Modelled from the spec: the header only declares the structures; what lays them
  out is not part of it. Section 8 of the specification speaks of each record
  serialized with its fields in declared order and with their declared widths:
  \<open>packed_offsets\<close> gives every member the offset where the previous one ends,
  and \<open>packed_size\<close> is the sum of the widths.
\<close>

fun packed_offsets :: "nat \<Rightarrow> member list \<Rightarrow> nat list" where
  "packed_offsets off [] = []"
| "packed_offsets off (m # ms) = off # packed_offsets (off + member_size m) ms"

definition packed_size :: "member list \<Rightarrow> nat" where
  "packed_size ms = sum_list (map member_size ms)"

text \<open>
  Modelled from the spec: section 4.1 says that field order determines the byte
  offset "under standard alignment rules for the target platform's ABI". The C rule
  is taken for it: a member starts at the next multiple of the alignment of its
  type, the structure is aligned like its most aligned member, and its size is
  rounded up to that alignment. The alignment of each scalar type is the
  parameter \<open>al\<close>; \<open>alignof_arm64\<close> is its value on the platform the header is
  written for, where every fixed-width integer is aligned to its size.
\<close>

definition align_up :: "nat \<Rightarrow> nat \<Rightarrow> nat" where
  "align_up off a = ((off + a - 1) div a) * a"

fun abi_offsets :: "(ctype \<Rightarrow> nat) \<Rightarrow> nat \<Rightarrow> member list \<Rightarrow> nat list" where
  "abi_offsets al off [] = []"
| "abi_offsets al off (m # ms) =
    (let p = align_up off (al (m_type m)) in p # abi_offsets al (p + member_size m) ms)"

fun abi_end :: "(ctype \<Rightarrow> nat) \<Rightarrow> nat \<Rightarrow> member list \<Rightarrow> nat" where
  "abi_end al off [] = off"
| "abi_end al off (m # ms) =
    abi_end al (align_up off (al (m_type m)) + member_size m) ms"

definition struct_align :: "(ctype \<Rightarrow> nat) \<Rightarrow> member list \<Rightarrow> nat" where
  "struct_align al ms = fold (\<lambda>m a. max (al (m_type m)) a) ms 1"

definition abi_sizeof :: "(ctype \<Rightarrow> nat) \<Rightarrow> member list \<Rightarrow> nat" where
  "abi_sizeof al ms = align_up (abi_end al 0 ms) (struct_align al ms)"

fun alignof_arm64 :: "ctype \<Rightarrow> nat" where
  "alignof_arm64 UChar = 1"
| "alignof_arm64 UInt16 = 2"
| "alignof_arm64 UInt32 = 4"
| "alignof_arm64 UInt64 = 8"
| "alignof_arm64 Int64 = 8"

text \<open>
  \<open>size_aligned off ms\<close>: laid out back to back from \<open>off\<close>, every member of
  \<open>ms\<close> starts at a multiple of the size of its element type.
\<close>

fun size_aligned :: "nat \<Rightarrow> member list \<Rightarrow> bool" where
  "size_aligned off [] = True"
| "size_aligned off (m # ms) =
    (sizeof_ctype (m_type m) dvd off \<and> size_aligned (off + member_size m) ms)"

subsection \<open>The identification bytes\<close>

text \<open>
  Modelled from the spec: the header defines the four magic constants and no
  function that checks them. The identification-byte check of sections 3 and 8
  (bytes 0 to 3 of the buffer equal \<open>ELFMAG0\<close>, \<open>'E'\<close>, \<open>'L'\<close>, \<open>'F'\<close>) is
  written as a C consumer would, comparing each \<open>unsigned char\<close> of the buffer,
  promoted to \<open>int\<close>, with the constant; a buffer of fewer than four bytes has
  no such bytes and is rejected.
\<close>

definition elf_ident_check :: "u8 list \<Rightarrow> bool" where
  "elf_ident_check buf \<longleftrightarrow>
     4 \<le> length buf \<and> uint (buf ! 0) = ELFMAG0 \<and> uint (buf ! 1) = ELFMAG1
     \<and> uint (buf ! 2) = ELFMAG2 \<and> uint (buf ! 3) = ELFMAG3"

section \<open>The iOS math compatibility header (Scripts/ios-math-compat.h)\<close>

text \<open>
  Under \<open>__arm64__\<close> the header defines \<open>ios_isnanf\<close> and \<open>ios_isinff\<close>. Each
  stores its \<open>float\<close> argument in a union and reads it back as \<open>uint32_t\<close>, so
  the only thing it looks at is the 32-bit pattern of the argument: the embedding
  takes that pattern as its input. The result is the \<open>int\<close> of the C comparison,
  1 or 0.
\<close>

definition ios_isnanf :: "u32 \<Rightarrow> int" where
  "ios_isnanf x = (if (x AND 0x7fffffff) > 0x7f800000 then 1 else 0)"

definition ios_isinff :: "u32 \<Rightarrow> int" where
  "ios_isinff x = (if (x AND 0x7fffffff) = 0x7f800000 then 1 else 0)"

section \<open>Properties of the relocation info macros\<close>

lemma low32_eq_mask: "(0xffffffff :: u64) = mask 32"
  by (simp add: mask_eq_exp_minus_1)

lemma and_low32_eq_take_bit: "(w :: u64) AND 0xffffffff = take_bit 32 w"
  by (simp add: low32_eq_mask take_bit_eq_mask)

lemma shifted_plus_low32_eq_or:
  "push_bit 32 (s :: u64) + take_bit 32 (t :: u64) = push_bit 32 s OR take_bit 32 t"
  by (rule disjunctive_add) (auto simp add: bit_simps)

text \<open>
  Claim C1. For every 64-bit value \<open>v\<close>, packing the symbol index and the relocation
  type extracted from \<open>v\<close> gives \<open>v\<close> back.
\<close>

theorem ELF64_R_INFO_roundtrip:
  "ELF64_R_INFO (ELF64_R_SYM v) (ELF64_R_TYPE v) = v"
  unfolding ELF64_R_INFO_def ELF64_R_SYM_def ELF64_R_TYPE_def and_low32_eq_take_bit
  by (simp add: bits_ident)

text \<open>
  Claim C2. For all 64-bit \<open>s\<close> and \<open>t\<close>, the packed value is the bitwise OR of
  \<open>s\<close> shifted left by 32 and the low 32 bits of \<open>t\<close> (the macro's \<open>+\<close> never
  carries), and only the low 32 bits of \<open>s\<close> take part: a symbol index of more than
  32 bits is truncated, and the macro has no rejecting branch.
\<close>

theorem ELF64_R_INFO_shift_or:
  "ELF64_R_INFO s t = (push_bit 32 s OR (t AND 0xffffffff))
   \<and> ELF64_R_INFO s t = ELF64_R_INFO (s AND 0xffffffff) t
   \<and> ELF64_R_INFO 0x100000005 2 = ELF64_R_INFO 5 2"
proof (intro conjI)
  show "ELF64_R_INFO s t = (push_bit 32 s OR (t AND 0xffffffff))"
    unfolding ELF64_R_INFO_def and_low32_eq_take_bit
    by (rule shifted_plus_low32_eq_or)
  show "ELF64_R_INFO s t = ELF64_R_INFO (s AND 0xffffffff) t"
    unfolding ELF64_R_INFO_def and_low32_eq_take_bit
    by (auto simp add: bit_eq_iff bit_simps shifted_plus_low32_eq_or)
  show "ELF64_R_INFO 0x100000005 2 = ELF64_R_INFO 5 2"
    by (simp add: ELF64_R_INFO_def)
qed

text \<open>
  Claim C3. For all 64-bit \<open>s\<close> and \<open>t\<close>, extracting from the packed value
  gives the low 32 bits of each input.
\<close>

theorem ELF64_R_extract_after_pack:
  "ELF64_R_SYM (ELF64_R_INFO s t) = s AND 0xffffffff
   \<and> ELF64_R_TYPE (ELF64_R_INFO s t) = t AND 0xffffffff"
proof
  show "ELF64_R_SYM (ELF64_R_INFO s t) = s AND 0xffffffff"
    unfolding ELF64_R_INFO_def ELF64_R_SYM_def and_low32_eq_take_bit
      shifted_plus_low32_eq_or
    by (rule bit_eqI) (auto simp add: bit_simps)
  show "ELF64_R_TYPE (ELF64_R_INFO s t) = t AND 0xffffffff"
    unfolding ELF64_R_INFO_def ELF64_R_TYPE_def and_low32_eq_take_bit
      shifted_plus_low32_eq_or
    by (rule bit_eqI) (auto simp add: bit_simps)
qed

text \<open>
  Claim C7. Packing symbol index 5 with relocation type \<open>R_X86_64_PC32\<close> gives
  21474836482, and extracting from 21474836482 gives symbol index 5 and type 2.
\<close>

theorem ELF64_R_INFO_pc32_scenario:
  "R_X86_64_PC32 = 2
   \<and> ELF64_R_INFO 5 (word_of_int R_X86_64_PC32) = 21474836482
   \<and> ELF64_R_SYM 21474836482 = 5
   \<and> ELF64_R_TYPE 21474836482 = 2"
  by (simp add: ELF64_R_INFO_def ELF64_R_SYM_def ELF64_R_TYPE_def R_X86_64_PC32_def)

text \<open>
  Claim C9. For every 64-bit \<open>info\<close>, the extracted symbol index and the extracted
  relocation type are both below \<open>2 ^ 32\<close>.
\<close>

theorem ELF64_R_extract_fits_32:
  "unat (ELF64_R_SYM info) < 2 ^ 32 \<and> unat (ELF64_R_TYPE info) < 2 ^ 32"
proof
  have "unat info < 2 ^ 64"
    using unsigned_less [of info] by simp
  then have "unat info div 2 ^ 32 < 2 ^ 32"
    by (simp add: less_mult_imp_div_less)
  moreover have "unat (drop_bit 32 info) = unat info div 2 ^ 32"
    unfolding unat_drop_bit_eq by (rule drop_bit_eq_div)
  ultimately show "unat (ELF64_R_SYM info) < 2 ^ 32"
    by (simp only: ELF64_R_SYM_def)
  show "unat (ELF64_R_TYPE info) < 2 ^ 32"
    unfolding ELF64_R_TYPE_def and_low32_eq_take_bit
    using take_bit_nat_less_exp [of 32 "unat info"]
    by (simp add: unsigned_take_bit_eq)
qed

section \<open>The named constants\<close>

text \<open>
  Claim C5. The constants of the header have the values of the specification's
  table: file types 0 to 4, machine types 0, 3, 62 and 183, classes 1 and 2, data
  encodings 1 and 2, versions 0 and 1, section types 0 to 11, section flags 0x1, 0x2,
  0x4 and 0xf0000000, symbol bindings 0 to 2, symbol types 0 to 6 and relocation
  types 0 to 14. (\<open>STB_NUM\<close> and \<open>STT_NUM\<close> are the numbers of bindings and of
  types, not a binding or a type.)
\<close>

theorem elf_constant_table:
  "[ET_NONE, ET_REL, ET_EXEC, ET_DYN, ET_CORE] = [0, 1, 2, 3, 4]
   \<and> [EM_NONE, EM_386, EM_X86_64, EM_AARCH64] = [0, 3, 62, 183]
   \<and> [ELFCLASS32, ELFCLASS64] = [1, 2]
   \<and> [ELFDATA2LSB, ELFDATA2MSB] = [1, 2]
   \<and> [EV_NONE, EV_CURRENT] = [0, 1]
   \<and> [SHT_NULL, SHT_PROGBITS, SHT_SYMTAB, SHT_STRTAB, SHT_RELA, SHT_HASH, SHT_DYNAMIC,
       SHT_NOTE, SHT_NOBITS, SHT_REL, SHT_SHLIB, SHT_DYNSYM]
      = [0, 1, 2, 3, 4, 5, 6, 7, 8, 9, 10, 11]
   \<and> [SHF_WRITE, SHF_ALLOC, SHF_EXECINSTR, SHF_MASKPROC] = [0x1, 0x2, 0x4, 0xf0000000]
   \<and> [STB_LOCAL, STB_GLOBAL, STB_WEAK] = [0, 1, 2]
   \<and> STB_NUM = int (length [STB_LOCAL, STB_GLOBAL, STB_WEAK])
   \<and> [STT_NOTYPE, STT_OBJECT, STT_FUNC, STT_SECTION, STT_FILE, STT_COMMON, STT_TLS]
      = [0, 1, 2, 3, 4, 5, 6]
   \<and> STT_NUM
      = int (length [STT_NOTYPE, STT_OBJECT, STT_FUNC, STT_SECTION, STT_FILE, STT_COMMON,
          STT_TLS])
   \<and> [R_X86_64_NONE, R_X86_64_64, R_X86_64_PC32, R_X86_64_GOT32, R_X86_64_PLT32,
       R_X86_64_COPY, R_X86_64_GLOB_DAT, R_X86_64_JUMP_SLOT, R_X86_64_RELATIVE,
       R_X86_64_32, R_X86_64_32S, R_X86_64_16, R_X86_64_PC16, R_X86_64_8, R_X86_64_PC8]
      = [0, 1, 2, 3, 4, 5, 6, 7, 8, 9, 10, 11, 12, 13, 14]"
proof (intro conjI)
  show "[ET_NONE, ET_REL, ET_EXEC, ET_DYN, ET_CORE] = [0, 1, 2, 3, 4]"
    by (simp add: ET_NONE_def ET_REL_def ET_EXEC_def ET_DYN_def ET_CORE_def)
  show "[EM_NONE, EM_386, EM_X86_64, EM_AARCH64] = [0, 3, 62, 183]"
    by (simp add: EM_NONE_def EM_386_def EM_X86_64_def EM_AARCH64_def)
  show "[ELFCLASS32, ELFCLASS64] = [1, 2]"
    by (simp add: ELFCLASS32_def ELFCLASS64_def)
  show "[ELFDATA2LSB, ELFDATA2MSB] = [1, 2]"
    by (simp add: ELFDATA2LSB_def ELFDATA2MSB_def)
  show "[EV_NONE, EV_CURRENT] = [0, 1]"
    by (simp add: EV_NONE_def EV_CURRENT_def)
  show "[SHT_NULL, SHT_PROGBITS, SHT_SYMTAB, SHT_STRTAB, SHT_RELA, SHT_HASH, SHT_DYNAMIC,
       SHT_NOTE, SHT_NOBITS, SHT_REL, SHT_SHLIB, SHT_DYNSYM]
      = [0, 1, 2, 3, 4, 5, 6, 7, 8, 9, 10, 11]"
    by (simp add: SHT_NULL_def SHT_PROGBITS_def SHT_SYMTAB_def SHT_STRTAB_def SHT_RELA_def
        SHT_HASH_def SHT_DYNAMIC_def SHT_NOTE_def SHT_NOBITS_def SHT_REL_def SHT_SHLIB_def
        SHT_DYNSYM_def)
  show "[SHF_WRITE, SHF_ALLOC, SHF_EXECINSTR, SHF_MASKPROC] = [0x1, 0x2, 0x4, 0xf0000000]"
    by (simp add: SHF_WRITE_def SHF_ALLOC_def SHF_EXECINSTR_def SHF_MASKPROC_def)
  show "[STB_LOCAL, STB_GLOBAL, STB_WEAK] = [0, 1, 2]"
    by (simp add: STB_LOCAL_def STB_GLOBAL_def STB_WEAK_def)
  show "STB_NUM = int (length [STB_LOCAL, STB_GLOBAL, STB_WEAK])"
    by (simp add: STB_NUM_def)
  show "[STT_NOTYPE, STT_OBJECT, STT_FUNC, STT_SECTION, STT_FILE, STT_COMMON, STT_TLS]
      = [0, 1, 2, 3, 4, 5, 6]"
    by (simp add: STT_NOTYPE_def STT_OBJECT_def STT_FUNC_def STT_SECTION_def STT_FILE_def
        STT_COMMON_def STT_TLS_def)
  show "STT_NUM
      = int (length [STT_NOTYPE, STT_OBJECT, STT_FUNC, STT_SECTION, STT_FILE, STT_COMMON,
          STT_TLS])"
    by (simp add: STT_NUM_def)
  show "[R_X86_64_NONE, R_X86_64_64, R_X86_64_PC32, R_X86_64_GOT32, R_X86_64_PLT32,
       R_X86_64_COPY, R_X86_64_GLOB_DAT, R_X86_64_JUMP_SLOT, R_X86_64_RELATIVE,
       R_X86_64_32, R_X86_64_32S, R_X86_64_16, R_X86_64_PC16, R_X86_64_8, R_X86_64_PC8]
      = [0, 1, 2, 3, 4, 5, 6, 7, 8, 9, 10, 11, 12, 13, 14]"
    by (simp add: R_X86_64_NONE_def R_X86_64_64_def R_X86_64_PC32_def R_X86_64_GOT32_def
        R_X86_64_PLT32_def R_X86_64_COPY_def R_X86_64_GLOB_DAT_def R_X86_64_JUMP_SLOT_def
        R_X86_64_RELATIVE_def R_X86_64_32_def R_X86_64_32S_def R_X86_64_16_def
        R_X86_64_PC16_def R_X86_64_8_def R_X86_64_PC8_def)
qed

section \<open>The identification bytes\<close>

lemma take_4_eq_iff:
  "take 4 buf = [a, b, c, d] \<longleftrightarrow>
     4 \<le> length buf \<and> buf ! 0 = a \<and> buf ! 1 = b \<and> buf ! 2 = c \<and> buf ! 3 = d"
proof (cases buf)
  case Nil
  then show ?thesis by simp
next
  case b0: (Cons x0 buf1)
  show ?thesis
  proof (cases buf1)
    case Nil
    with b0 show ?thesis by simp
  next
    case b1: (Cons x1 buf2)
    show ?thesis
    proof (cases buf2)
      case Nil
      with b0 b1 show ?thesis by simp
    next
      case b2: (Cons x2 buf3)
      show ?thesis
      proof (cases buf3)
        case Nil
        with b0 b1 b2 show ?thesis by simp
      next
        case (Cons x3 buf4)
        with b0 b1 b2 show ?thesis by (simp add: numeral_eq_Suc)
      qed
    qed
  qed
qed

lemma uint_magic_byte_iff:
  "uint (w :: u8) = 0x7f \<longleftrightarrow> w = 0x7f"
  "uint (w :: u8) = 0x45 \<longleftrightarrow> w = 0x45"
  "uint (w :: u8) = 0x4c \<longleftrightarrow> w = 0x4c"
  "uint (w :: u8) = 0x46 \<longleftrightarrow> w = 0x46"
  by (simp_all add: word_uint_eq_iff [of w])

text \<open>
  Claim C8. The magic constants are the bytes 0x7f, 0x45, 0x4c and 0x46, so the
  identification-byte check accepts a buffer exactly when its first four bytes are
  these.
\<close>

theorem elf_magic_bytes:
  "ELFMAG0 = 0x7f \<and> ELFMAG1 = 0x45 \<and> ELFMAG2 = 0x4c \<and> ELFMAG3 = 0x46
   \<and> (elf_ident_check buf \<longleftrightarrow> take 4 buf = [0x7f, 0x45, 0x4c, 0x46])"
proof -
  have mag: "ELFMAG0 = 0x7f" "ELFMAG1 = 0x45" "ELFMAG2 = 0x4c" "ELFMAG3 = 0x46"
    by (simp_all add: ELFMAG0_def ELFMAG1_def ELFMAG2_def ELFMAG3_def)
  have "elf_ident_check buf \<longleftrightarrow> take 4 buf = [0x7f, 0x45, 0x4c, 0x46]"
    unfolding take_4_eq_iff elf_ident_check_def mag
    by (simp only: uint_magic_byte_iff)
  with mag show ?thesis by simp
qed

section \<open>The structure layouts\<close>

lemma align_up_dvd:
  assumes "a dvd off"
  shows "align_up off a = off"
proof (cases "a = 0")
  case True
  with assms show ?thesis by (simp add: align_up_def)
next
  case False
  from assms obtain k where k: "off = k * a"
    by (metis dvd_def mult.commute)
  have "(k * a + a - 1) div a = k"
    using False by (intro div_nat_eqI) (simp_all add: algebra_simps)
  then show ?thesis by (simp add: align_up_def k)
qed

lemma abi_offsets_eq_packed:
  assumes al: "\<And>t. al t dvd sizeof_ctype t"
  shows "size_aligned off ms \<Longrightarrow> abi_offsets al off ms = packed_offsets off ms"
proof (induction ms arbitrary: off)
  case Nil
  show ?case by simp
next
  case (Cons m ms)
  from Cons.prems have "sizeof_ctype (m_type m) dvd off" by simp
  with al have "al (m_type m) dvd off" by (rule dvd_trans)
  then have "align_up off (al (m_type m)) = off" by (rule align_up_dvd)
  with Cons show ?case by simp
qed

lemma abi_end_eq_packed:
  assumes al: "\<And>t. al t dvd sizeof_ctype t"
  shows "size_aligned off ms \<Longrightarrow> abi_end al off ms = off + packed_size ms"
proof (induction ms arbitrary: off)
  case Nil
  show ?case by (simp add: packed_size_def)
next
  case (Cons m ms)
  from Cons.prems have "sizeof_ctype (m_type m) dvd off" by simp
  with al have "al (m_type m) dvd off" by (rule dvd_trans)
  then have "align_up off (al (m_type m)) = off" by (rule align_up_dvd)
  with Cons show ?case by (simp add: packed_size_def)
qed

lemma sizeof_ctype_dvd_8: "sizeof_ctype t dvd 8"
  by (cases t) simp_all

lemma fold_max_dvd:
  fixes n :: nat
  shows "a dvd n \<Longrightarrow> \<forall>m \<in> set ms. f m dvd n \<Longrightarrow> fold (\<lambda>m a. max (f m) a) ms a dvd n"
proof (induction ms arbitrary: a)
  case Nil
  then show ?case by simp
next
  case (Cons m ms)
  have "max (f m) a dvd n" using Cons.prems by (simp add: max_def)
  with Cons show ?case by simp
qed

lemma struct_align_dvd_8:
  assumes al: "\<And>t. al t dvd sizeof_ctype t"
  shows "struct_align al ms dvd 8"
  unfolding struct_align_def
  by (rule fold_max_dvd) (auto intro: dvd_trans [OF al sizeof_ctype_dvd_8])

lemma abi_sizeof_eq_packed:
  assumes al: "\<And>t. al t dvd sizeof_ctype t"
    and aligned: "size_aligned 0 ms"
    and size: "8 dvd packed_size ms"
  shows "abi_sizeof al ms = packed_size ms"
proof -
  have "abi_end al 0 ms = packed_size ms"
    using abi_end_eq_packed [OF al aligned] by simp
  moreover have "struct_align al ms dvd packed_size ms"
    using struct_align_dvd_8 [OF al] size by (rule dvd_trans)
  ultimately show ?thesis by (simp add: abi_sizeof_def align_up_dvd)
qed

lemma Elf64_Ehdr_packed:
  "packed_size Elf64_Ehdr = 64"
  "packed_offsets 0 Elf64_Ehdr = [0, 16, 18, 20, 24, 32, 40, 48, 52, 54, 56, 58, 60, 62]"
  "size_aligned 0 Elf64_Ehdr"
  by (simp_all add: Elf64_Ehdr_def packed_size_def member_size_def)

lemma Elf64_Shdr_packed:
  "packed_size Elf64_Shdr = 64"
  "packed_offsets 0 Elf64_Shdr = [0, 4, 8, 16, 24, 32, 40, 44, 48, 56]"
  "size_aligned 0 Elf64_Shdr"
  by (simp_all add: Elf64_Shdr_def packed_size_def member_size_def)

lemma Elf64_Sym_packed:
  "packed_size Elf64_Sym = 24"
  "packed_offsets 0 Elf64_Sym = [0, 4, 5, 6, 8, 16]"
  "size_aligned 0 Elf64_Sym"
  by (simp_all add: Elf64_Sym_def packed_size_def member_size_def)

lemma Elf64_Rela_packed:
  "packed_size Elf64_Rela = 24"
  "packed_offsets 0 Elf64_Rela = [0, 8, 16]"
  "size_aligned 0 Elf64_Rela"
  by (simp_all add: Elf64_Rela_def packed_size_def member_size_def)

text \<open>
  Claim C4. Laid out in declared order with the declared widths, \<open>Elf64_Ehdr\<close>
  takes 64 bytes, \<open>Elf64_Shdr\<close> 64, \<open>Elf64_Sym\<close> 24 and \<open>Elf64_Rela\<close> 24, and
  the C layout rule adds no padding: under every alignment that divides the size
  of its type, each member is at the offset where the previous one ends, and the
  size of the structure is the sum of the widths.
\<close>

theorem Elf64_struct_layouts:
  assumes al: "\<And>t. al t dvd sizeof_ctype t"
  shows "packed_size Elf64_Ehdr = 64 \<and> abi_sizeof al Elf64_Ehdr = 64
    \<and> packed_offsets 0 Elf64_Ehdr = [0, 16, 18, 20, 24, 32, 40, 48, 52, 54, 56, 58, 60, 62]
    \<and> abi_offsets al 0 Elf64_Ehdr = [0, 16, 18, 20, 24, 32, 40, 48, 52, 54, 56, 58, 60, 62]
    \<and> packed_size Elf64_Shdr = 64 \<and> abi_sizeof al Elf64_Shdr = 64
    \<and> packed_offsets 0 Elf64_Shdr = [0, 4, 8, 16, 24, 32, 40, 44, 48, 56]
    \<and> abi_offsets al 0 Elf64_Shdr = [0, 4, 8, 16, 24, 32, 40, 44, 48, 56]
    \<and> packed_size Elf64_Sym = 24 \<and> abi_sizeof al Elf64_Sym = 24
    \<and> packed_offsets 0 Elf64_Sym = [0, 4, 5, 6, 8, 16]
    \<and> abi_offsets al 0 Elf64_Sym = [0, 4, 5, 6, 8, 16]
    \<and> packed_size Elf64_Rela = 24 \<and> abi_sizeof al Elf64_Rela = 24
    \<and> packed_offsets 0 Elf64_Rela = [0, 8, 16]
    \<and> abi_offsets al 0 Elf64_Rela = [0, 8, 16]"
proof -
  have ehdr: "abi_sizeof al Elf64_Ehdr = 64"
    "abi_offsets al 0 Elf64_Ehdr = [0, 16, 18, 20, 24, 32, 40, 48, 52, 54, 56, 58, 60, 62]"
    using abi_sizeof_eq_packed [OF al Elf64_Ehdr_packed(3)]
      abi_offsets_eq_packed [OF al Elf64_Ehdr_packed(3)]
    by (simp_all only: Elf64_Ehdr_packed) simp
  have shdr: "abi_sizeof al Elf64_Shdr = 64"
    "abi_offsets al 0 Elf64_Shdr = [0, 4, 8, 16, 24, 32, 40, 44, 48, 56]"
    using abi_sizeof_eq_packed [OF al Elf64_Shdr_packed(3)]
      abi_offsets_eq_packed [OF al Elf64_Shdr_packed(3)]
    by (simp_all only: Elf64_Shdr_packed) simp
  have sym: "abi_sizeof al Elf64_Sym = 24"
    "abi_offsets al 0 Elf64_Sym = [0, 4, 5, 6, 8, 16]"
    using abi_sizeof_eq_packed [OF al Elf64_Sym_packed(3)]
      abi_offsets_eq_packed [OF al Elf64_Sym_packed(3)]
    by (simp_all only: Elf64_Sym_packed) simp
  have rela: "abi_sizeof al Elf64_Rela = 24"
    "abi_offsets al 0 Elf64_Rela = [0, 8, 16]"
    using abi_sizeof_eq_packed [OF al Elf64_Rela_packed(3)]
      abi_offsets_eq_packed [OF al Elf64_Rela_packed(3)]
    by (simp_all only: Elf64_Rela_packed) simp
  show ?thesis
    by (simp only: ehdr shdr sym rela Elf64_Ehdr_packed Elf64_Shdr_packed
        Elf64_Sym_packed Elf64_Rela_packed simp_thms)
qed

theorem Elf64_struct_layouts_witness:
  "(\<forall>t. alignof_arm64 t dvd sizeof_ctype t)
    \<and> abi_sizeof alignof_arm64 Elf64_Ehdr = 64
    \<and> abi_offsets alignof_arm64 0 Elf64_Ehdr
        = [0, 16, 18, 20, 24, 32, 40, 48, 52, 54, 56, 58, 60, 62]
    \<and> abi_sizeof alignof_arm64 Elf64_Shdr = 64
    \<and> abi_offsets alignof_arm64 0 Elf64_Shdr = [0, 4, 8, 16, 24, 32, 40, 44, 48, 56]
    \<and> abi_sizeof alignof_arm64 Elf64_Sym = 24
    \<and> abi_offsets alignof_arm64 0 Elf64_Sym = [0, 4, 5, 6, 8, 16]
    \<and> abi_sizeof alignof_arm64 Elf64_Rela = 24
    \<and> abi_offsets alignof_arm64 0 Elf64_Rela = [0, 8, 16]"
proof -
  have al: "alignof_arm64 t dvd sizeof_ctype t" for t
    by (cases t) simp_all
  from al Elf64_struct_layouts [of alignof_arm64, OF al] show ?thesis
    by (simp only: simp_thms)
qed

section \<open>The bit-pattern classification of floats\<close>

text \<open>
  Claim C6. For every 32-bit pattern \<open>b\<close>, \<open>ios_isnanf\<close> is true exactly when
  \<open>b AND 0x7fffffff\<close> is above 0x7f800000 and \<open>ios_isinff\<close> exactly when it is
  equal to 0x7f800000; so 0x7f800000 is infinite and not NaN, 0x7fc00000 is NaN and
  not infinite, and 0x3f800000 is neither.
\<close>

theorem ios_float_classification:
  "(ios_isnanf b \<noteq> 0 \<longleftrightarrow> (b AND 0x7fffffff) > 0x7f800000)
   \<and> (ios_isinff b \<noteq> 0 \<longleftrightarrow> (b AND 0x7fffffff) = 0x7f800000)
   \<and> ios_isinff 0x7f800000 \<noteq> 0 \<and> ios_isnanf 0x7f800000 = 0
   \<and> ios_isnanf 0x7fc00000 \<noteq> 0 \<and> ios_isinff 0x7fc00000 = 0
   \<and> ios_isnanf 0x3f800000 = 0 \<and> ios_isinff 0x3f800000 = 0"
  by (simp add: ios_isnanf_def ios_isinff_def)

text \<open>
  Claim C10. No 32-bit pattern is classified both as NaN and as infinite.
\<close>

theorem ios_isnanf_isinff_exclusive:
  "\<not> (ios_isnanf b \<noteq> 0 \<and> ios_isinff b \<noteq> 0)"
  by (simp add: ios_isnanf_def ios_isinff_def)

subsection \<open>The classification in terms of the IEEE 754 fields\<close>

text \<open>
  The two tests agree with the binary32 encoding: a pattern is a NaN when its
  exponent field (bits 23 to 30) is all ones and its fraction (bits 0 to 22) is
  not zero, and an infinity when the exponent is all ones and the fraction zero.
\<close>

lemma top_block_iff:
  fixes n K :: nat
  assumes "n < 256 * K"
  shows "255 * K < n \<longleftrightarrow> n div K = 255 \<and> n mod K \<noteq> 0"
proof
  assume gt: "255 * K < n"
  have "n div K < 256"
    using assms by (simp add: less_mult_imp_div_less)
  moreover have "255 \<le> n div K"
  proof (rule ccontr)
    assume "\<not> 255 \<le> n div K"
    then have "n div K \<le> 254" by simp
    then have "n div K * K \<le> 254 * K" by (rule mult_le_mono1)
    moreover have "n = n div K * K + n mod K" by simp
    moreover have "n mod K < K" using assms by (cases "K = 0") simp_all
    ultimately show False using gt by linarith
  qed
  ultimately have q: "n div K = 255" by simp
  have "n = n div K * K + n mod K" by simp
  with q gt have "n mod K \<noteq> 0" by (metis add.right_neutral less_irrefl)
  with q show "n div K = 255 \<and> n mod K \<noteq> 0" ..
next
  assume a: "n div K = 255 \<and> n mod K \<noteq> 0"
  have "n = n div K * K + n mod K" by simp
  with a have "n = 255 * K + n mod K" by simp
  with a show "255 * K < n" by linarith
qed

lemma and_low31_eq_take_bit: "(b :: u32) AND 0x7fffffff = take_bit 31 b"
proof -
  have "(0x7fffffff :: u32) = mask 31" by (simp add: mask_eq_exp_minus_1)
  then show ?thesis by (simp add: take_bit_eq_mask)
qed

lemma and_low23_eq_take_bit: "(b :: u32) AND 0x7fffff = take_bit 23 b"
proof -
  have "(0x7fffff :: u32) = mask 23" by (simp add: mask_eq_exp_minus_1)
  then show ?thesis by (simp add: take_bit_eq_mask)
qed

lemma and_low8_eq_take_bit: "(b :: u32) AND 0xff = take_bit 8 b"
proof -
  have "(0xff :: u32) = mask 8" by (simp add: mask_eq_exp_minus_1)
  then show ?thesis by (simp add: take_bit_eq_mask)
qed

lemma unat_and_low31: "unat ((b :: u32) AND 0x7fffffff) = unat b mod 2 ^ 31"
  unfolding and_low31_eq_take_bit unsigned_take_bit_eq by (rule take_bit_eq_mod)

lemma unat_fraction: "unat ((b :: u32) AND 0x7fffff) = unat b mod 2 ^ 23"
  unfolding and_low23_eq_take_bit unsigned_take_bit_eq by (rule take_bit_eq_mod)

lemma unat_exponent:
  "unat (drop_bit 23 (b :: u32) AND 0xff) = (unat b div 2 ^ 23) mod 2 ^ 8"
  unfolding and_low8_eq_take_bit unsigned_take_bit_eq unat_drop_bit_eq
  by (simp only: take_bit_eq_mod drop_bit_eq_div)

lemma low31_fields:
  fixes n :: nat
  shows "(n mod 2 ^ 31) div 2 ^ 23 = (n div 2 ^ 23) mod 2 ^ 8"
    and "(n mod 2 ^ 31) mod 2 ^ 23 = n mod 2 ^ 23"
proof -
  have "(2::nat) ^ 31 = 2 ^ 23 * 2 ^ 8" by (simp flip: power_add)
  then show "(n mod 2 ^ 31) div 2 ^ 23 = (n div 2 ^ 23) mod 2 ^ 8"
    by (simp only: mod_mult2_eq) simp
  have "(2::nat) ^ 23 dvd 2 ^ 31" by (rule le_imp_power_dvd) simp
  then show "(n mod 2 ^ 31) mod 2 ^ 23 = n mod 2 ^ 23" by (rule mod_mod_cancel)
qed

lemma ios_isnanf_ieee_fields:
  "ios_isnanf b \<noteq> 0 \<longleftrightarrow> drop_bit 23 b AND 0xff = 0xff \<and> b AND 0x7fffff \<noteq> 0"
proof -
  let ?n = "unat b mod 2 ^ 31"
  have "?n < 256 * 2 ^ 23" by simp
  then have "255 * 2 ^ 23 < ?n \<longleftrightarrow> ?n div 2 ^ 23 = 255 \<and> ?n mod 2 ^ 23 \<noteq> 0"
    by (rule top_block_iff)
  then have "255 * 2 ^ 23 < ?n
      \<longleftrightarrow> (unat b div 2 ^ 23) mod 2 ^ 8 = 255 \<and> unat b mod 2 ^ 23 \<noteq> 0"
    by (simp only: low31_fields)
  then have "unat (0x7f800000 :: u32) < unat (b AND 0x7fffffff)
      \<longleftrightarrow> unat (drop_bit 23 b AND 0xff) = unat (0xff :: u32)
        \<and> unat (b AND 0x7fffff) \<noteq> unat (0 :: u32)"
    by (simp only: unat_and_low31 unat_fraction unat_exponent) simp
  then show ?thesis
    by (simp only: ios_isnanf_def word_less_nat_alt word_unat_eq_iff) simp
qed

lemma ios_isinff_ieee_fields:
  "ios_isinff b \<noteq> 0 \<longleftrightarrow> drop_bit 23 b AND 0xff = 0xff \<and> b AND 0x7fffff = 0"
proof -
  let ?n = "unat b mod 2 ^ 31"
  let ?K = "(2::nat) ^ 23"
  have split: "?n = ?n div ?K * ?K + ?n mod ?K" by simp
  have "?n = 255 * ?K \<longleftrightarrow> ?n div ?K = 255 \<and> ?n mod ?K = 0"
  proof
    assume "?n = 255 * ?K"
    then show "?n div ?K = 255 \<and> ?n mod ?K = 0" by simp
  next
    assume "?n div ?K = 255 \<and> ?n mod ?K = 0"
    with split show "?n = 255 * ?K" by (metis add.right_neutral)
  qed
  then have "?n = 255 * 2 ^ 23
      \<longleftrightarrow> (unat b div 2 ^ 23) mod 2 ^ 8 = 255 \<and> unat b mod 2 ^ 23 = 0"
    by (simp only: low31_fields)
  then have "unat (b AND 0x7fffffff) = unat (0x7f800000 :: u32)
      \<longleftrightarrow> unat (drop_bit 23 b AND 0xff) = unat (0xff :: u32)
        \<and> unat (b AND 0x7fffff) = unat (0 :: u32)"
    by (simp only: unat_and_low31 unat_fraction unat_exponent) simp
  then show ?thesis
    by (simp only: ios_isinff_def word_unat_eq_iff) simp
qed

end
